theory Spec2Isabelle
  imports Main
begin

section \<open>The serial-modbus character device: data model\<close>

text \<open>
  The driver \<^verbatim>\<open>serial-modbus.c\<close> registers one character device and attaches a
  private structure to every open file. The kernel services it calls are not part of the
  driver; each is modelled by what it answers (a field of the record \<open>kernel\<close>, or a
  parameter \<open>ok\<close> of the allocator) and by an entry in the list of calls the module has
  made. Messages written with \<^verbatim>\<open>pr_info\<close>, \<^verbatim>\<open>pr_err\<close> and \<^verbatim>\<open>dev_info\<close> are left out.
\<close>

text \<open>
  A pointer is the value \<^verbatim>\<open>PTR_ERR\<close> reads: the address as a signed long. The null
  pointer is 0 and the error pointers of \<^verbatim>\<open>linux/err.h\<close> are the last \<open>MAX_ERRNO\<close>
  addresses, the values \<open>-MAX_ERRNO .. -1\<close>.
\<close>

type_synonym ptr = int

definition NULL :: ptr where
  "NULL = 0"

definition MAX_ERRNO :: int where
  "MAX_ERRNO = 4095"

definition IS_ERR :: "ptr \<Rightarrow> bool" where
  "IS_ERR p = (- MAX_ERRNO \<le> p \<and> p < 0)"

definition PTR_ERR :: "ptr \<Rightarrow> int" where
  "PTR_ERR p = p"

text \<open>\<^verbatim>\<open>ENOMEM\<close> of \<^verbatim>\<open>asm-generic/errno-base.h\<close>.\<close>

definition ENOMEM :: int where
  "ENOMEM = 12"

text \<open>
  A device number \<^verbatim>\<open>dev_t\<close> holds the major number above \<open>MINORBITS = 20\<close> bits of
  minor number (\<^verbatim>\<open>linux/kdev_t.h\<close>).
\<close>

type_synonym dev_t = nat

definition MINORBITS :: nat where
  "MINORBITS = 20"

definition MAJOR :: "dev_t \<Rightarrow> nat" where
  "MAJOR dev = dev div 2 ^ MINORBITS"

definition MINOR :: "dev_t \<Rightarrow> nat" where
  "MINOR dev = dev mod 2 ^ MINORBITS"

definition MKDEV :: "nat \<Rightarrow> nat \<Rightarrow> dev_t" where
  "MKDEV ma mi = ma * 2 ^ MINORBITS + mi"

text \<open>The conversion \<^verbatim>\<open>%d\<close> of a value that is not negative.\<close>

definition digit :: "nat \<Rightarrow> char" where
  "digit d = ''0123456789'' ! d"

fun decimal :: "nat \<Rightarrow> string" where
  "decimal n = (if n < 10 then [digit n] else decimal (n div 10) @ [digit (n mod 10)])"

declare decimal.simps [simp del]

definition DEVICE_NAME :: string where
  "DEVICE_NAME = ''modbus_dev''"

definition CLASS_NAME :: string where
  "CLASS_NAME = ''modbus_class''"

definition firstOfMinorNum :: nat where
  "firstOfMinorNum = 0"

definition countOfMinorNum :: nat where
  "countOfMinorNum = 1"


section \<open>Per-instance state and the file operations\<close>

record private_data =
  tempPlaceholder :: int

text \<open>
  The memory the file operations can reach: the inode of the device node, the open file
  with its \<^verbatim>\<open>private_data\<close> field, the live objects of the kernel allocator (address and
  contents), and, for read and write, the bytes of the user buffer and the position
  \<^verbatim>\<open>*ppos\<close>. The arguments passed by value (\<open>cmd\<close>, \<open>arg\<close>, \<open>lbuf\<close>) are parameters.
\<close>

record inode =
  i_rdev :: dev_t

record struct_file =
  private_data :: ptr

record mem =
  inode :: inode
  filp :: struct_file
  slab :: "(ptr \<times> private_data) list"
  buf :: string
  ppos :: int

text \<open>
  \<^verbatim>\<open>kzalloc\<close> either fails and returns the null pointer, or returns the address of a new
  object filled with zeros. The new address is one that no live object has and is not
  null: the successor of the largest live address.
\<close>

definition fresh :: "(ptr \<times> private_data) list \<Rightarrow> ptr" where
  "fresh objs = 1 + fold max (map fst objs) 0"

definition kzalloc :: "bool \<Rightarrow> mem \<Rightarrow> ptr \<times> mem" where
  "kzalloc ok s =
     (if ok then (fresh (slab s), s\<lparr>slab := (fresh (slab s), \<lparr>tempPlaceholder = 0\<rparr>) # slab s\<rparr>)
      else (NULL, s))"

definition kfree :: "ptr \<Rightarrow> mem \<Rightarrow> mem" where
  "kfree p s = s\<lparr>slab := filter (\<lambda>obj. fst obj \<noteq> p) (slab s)\<rparr>"

definition modbus_dev_open :: "bool \<Rightarrow> mem \<Rightarrow> int \<times> mem" where
  "modbus_dev_open ok s =
     (let (myPrivateData, s1) = kzalloc ok s in
      if myPrivateData = NULL then (- ENOMEM, s1)
      else (0, s1\<lparr>filp := (filp s1)\<lparr>private_data := myPrivateData\<rparr>\<rparr>))"

definition modbus_dev_close :: "mem \<Rightarrow> int \<times> mem" where
  "modbus_dev_close s =
     (let myPrivateData = private_data (filp s) in
      if myPrivateData = NULL then (- ENOMEM, s)
      else (0, kfree myPrivateData s))"

definition modbus_dev_ioctl :: "nat \<Rightarrow> nat \<Rightarrow> mem \<Rightarrow> int \<times> mem" where
  "modbus_dev_ioctl cmd arg s =
     (let myPrivateData = private_data (filp s) in
      if myPrivateData = NULL then (- ENOMEM, s)
      else (0, s))"

definition modbus_dev_read :: "nat \<Rightarrow> mem \<Rightarrow> int \<times> mem" where
  "modbus_dev_read lbuf s =
     (let myPrivateData = private_data (filp s) in
      if myPrivateData = NULL then (- ENOMEM, s)
      else (0, s))"

definition modbus_dev_write :: "nat \<Rightarrow> mem \<Rightarrow> int \<times> mem" where
  "modbus_dev_write lbuf s =
     (let myPrivateData = private_data (filp s) in
      if myPrivateData = NULL then (- ENOMEM, s)
      else (0, s))"

text \<open>
  The table \<^verbatim>\<open>modbus_dev_fops\<close>: the slots of \<^verbatim>\<open>file_operations\<close> the driver fills, each
  with the handler it names.
\<close>

definition modbus_dev_fops :: "(string \<times> string) list" where
  "modbus_dev_fops =
     [(''read'', ''modbus_dev_read''), (''write'', ''modbus_dev_write''),
      (''open'', ''modbus_dev_open''), (''release'', ''modbus_dev_close''),
      (''unlocked_ioctl'', ''modbus_dev_ioctl'')]"


section \<open>Module load and unload\<close>

text \<open>
  Every call into the character-device and device-model services is recorded with its
  arguments and, where it has one, its result.
\<close>

datatype call =
    Alloc_chrdev_region nat nat string int dev_t
  | Cdev_alloc ptr
  | Cdev_init ptr "(string \<times> string) list"
  | Cdev_add ptr dev_t nat int
  | Cdev_del ptr
  | Unregister_chrdev_region dev_t nat
  | Class_create string ptr
  | Class_unregister ptr
  | Class_destroy ptr
  | Device_create ptr dev_t string ptr
  | Device_destroy ptr dev_t

text \<open>The answers of the kernel during one module load.\<close>

record kernel =
  alloc_chrdev_region_ret :: int
  alloc_chrdev_region_dev :: dev_t
  cdev_alloc_ret :: ptr
  cdev_add_ret :: int
  class_create_ret :: ptr
  device_create_ret :: ptr

text \<open>The static variables of the module, and the calls it has made so far.\<close>

record module =
  my_dev :: ptr
  firstAssignedDevNum :: dev_t
  modbusClass :: ptr
  modbusDevice :: ptr
  calls :: "call list"

definition module_unloaded :: module where
  "module_unloaded =
     \<lparr>my_dev = NULL, firstAssignedDevNum = 0, modbusClass = NULL, modbusDevice = NULL,
      calls = []\<rparr>"

definition record_call :: "call \<Rightarrow> module \<Rightarrow> module" where
  "record_call c m = m\<lparr>calls := calls m @ [c]\<rparr>"

text \<open>
  \<^verbatim>\<open>alloc_chrdev_region\<close> stores the device number through its first argument, here the
  variable \<^verbatim>\<open>firstAssignedDevNum\<close>, only when it succeeds.
\<close>

definition alloc_chrdev_region :: "kernel \<Rightarrow> nat \<Rightarrow> nat \<Rightarrow> string \<Rightarrow> module \<Rightarrow> int \<times> module" where
  "alloc_chrdev_region k baseminor count name m =
     (let ret = alloc_chrdev_region_ret k;
          dev = alloc_chrdev_region_dev k;
          m1 = record_call (Alloc_chrdev_region baseminor count name ret dev) m
      in (ret, if ret < 0 then m1 else m1\<lparr>firstAssignedDevNum := dev\<rparr>))"

definition cdev_alloc :: "kernel \<Rightarrow> module \<Rightarrow> ptr \<times> module" where
  "cdev_alloc k m = (cdev_alloc_ret k, record_call (Cdev_alloc (cdev_alloc_ret k)) m)"

definition cdev_init :: "ptr \<Rightarrow> (string \<times> string) list \<Rightarrow> module \<Rightarrow> module" where
  "cdev_init p fops m = record_call (Cdev_init p fops) m"

definition cdev_add :: "kernel \<Rightarrow> ptr \<Rightarrow> dev_t \<Rightarrow> nat \<Rightarrow> module \<Rightarrow> int \<times> module" where
  "cdev_add k p dev count m = (cdev_add_ret k, record_call (Cdev_add p dev count (cdev_add_ret k)) m)"

definition cdev_del :: "ptr \<Rightarrow> module \<Rightarrow> module" where
  "cdev_del p m = record_call (Cdev_del p) m"

definition unregister_chrdev_region :: "dev_t \<Rightarrow> nat \<Rightarrow> module \<Rightarrow> module" where
  "unregister_chrdev_region dev count m = record_call (Unregister_chrdev_region dev count) m"

definition class_create :: "kernel \<Rightarrow> string \<Rightarrow> module \<Rightarrow> ptr \<times> module" where
  "class_create k name m = (class_create_ret k, record_call (Class_create name (class_create_ret k)) m)"

definition class_unregister :: "ptr \<Rightarrow> module \<Rightarrow> module" where
  "class_unregister cls m = record_call (Class_unregister cls) m"

definition class_destroy :: "ptr \<Rightarrow> module \<Rightarrow> module" where
  "class_destroy cls m = record_call (Class_destroy cls) m"

definition device_create :: "kernel \<Rightarrow> ptr \<Rightarrow> dev_t \<Rightarrow> string \<Rightarrow> module \<Rightarrow> ptr \<times> module" where
  "device_create k cls dev name m =
     (device_create_ret k, record_call (Device_create cls dev name (device_create_ret k)) m)"

definition device_destroy :: "ptr \<Rightarrow> dev_t \<Rightarrow> module \<Rightarrow> module" where
  "device_destroy cls dev m = record_call (Device_destroy cls dev) m"

definition modbus_dev_init :: "kernel \<Rightarrow> module \<Rightarrow> int \<times> module" where
  "modbus_dev_init k m0 =
     (let (ret, m1) = alloc_chrdev_region k firstOfMinorNum countOfMinorNum DEVICE_NAME m0 in
      if ret < 0 then (ret, m1)
      else
        let (p, m2') = cdev_alloc k m1;
            m2 = m2'\<lparr>my_dev := p\<rparr> in
        if my_dev m2 = NULL then (- 1, m2)
        else
          let m3 = cdev_init (my_dev m2) modbus_dev_fops m2;
              (ret, m4) = cdev_add k (my_dev m3) (firstAssignedDevNum m3) countOfMinorNum m3 in
          if ret < 0 then
            (ret, unregister_chrdev_region (firstAssignedDevNum m4) countOfMinorNum
                    (cdev_del (my_dev m4) m4))
          else
            let (cls, m5') = class_create k CLASS_NAME m4;
                m5 = m5'\<lparr>modbusClass := cls\<rparr> in
            if IS_ERR (modbusClass m5) then
              (PTR_ERR (modbusClass m5),
               unregister_chrdev_region (firstAssignedDevNum m5) countOfMinorNum
                 (cdev_del (my_dev m5) m5))
            else
              let (dev, m6') = device_create k (modbusClass m5) (firstAssignedDevNum m5)
                                 (DEVICE_NAME @ decimal (MINOR (firstAssignedDevNum m5))) m5;
                  m6 = m6'\<lparr>modbusDevice := dev\<rparr> in
              if IS_ERR (modbusDevice m6) then
                (PTR_ERR (modbusDevice m6),
                 unregister_chrdev_region (firstAssignedDevNum m6) countOfMinorNum
                   (cdev_del (my_dev m6) (class_destroy (modbusClass m6) m6)))
              else (0, m6))"

definition modbus_dev_exit :: "module \<Rightarrow> module" where
  "modbus_dev_exit m0 =
     (let m1 = (if my_dev m0 \<noteq> NULL then cdev_del (my_dev m0) m0 else m0);
          m2 = device_destroy (modbusClass m1) (firstAssignedDevNum m1) m1;
          m3 = class_unregister (modbusClass m2) m2;
          m4 = class_destroy (modbusClass m3) m3
      in unregister_chrdev_region (firstAssignedDevNum m4) countOfMinorNum m4)"

text \<open>The calls a run of \<open>modbus_dev_exit\<close> adds.\<close>

definition exit_calls :: "module \<Rightarrow> call list" where
  "exit_calls m = drop (length (calls m)) (calls (modbus_dev_exit m))"


section \<open>Resources held\<close>

text \<open>
  What the services acquire and release. The device identity is the region of device
  numbers; the cdev structure is the memory \<^verbatim>\<open>cdev_alloc\<close> returns; the dispatch
  registration is what a successful \<^verbatim>\<open>cdev_add\<close> makes live; \<^verbatim>\<open>cdev_del\<close> removes the
  registration and drops the structure. An acquisition counts when the driver's own test
  of the result takes it for a success.
\<close>

datatype resource = DeviceIdentity | CdevStruct | DispatchRegistration | DeviceClass | DeviceNode

fun acquires :: "call \<Rightarrow> resource list" where
  "acquires (Alloc_chrdev_region b c n ret dev) = (if ret < 0 then [] else [DeviceIdentity])"
| "acquires (Cdev_alloc p) = (if p = NULL then [] else [CdevStruct])"
| "acquires (Cdev_add p dev c ret) = (if ret < 0 then [] else [DispatchRegistration])"
| "acquires (Class_create n p) = (if IS_ERR p then [] else [DeviceClass])"
| "acquires (Device_create cls dev n p) = (if IS_ERR p then [] else [DeviceNode])"
| "acquires (Cdev_init p fops) = []"
| "acquires (Cdev_del p) = []"
| "acquires (Unregister_chrdev_region dev c) = []"
| "acquires (Class_unregister cls) = []"
| "acquires (Class_destroy cls) = []"
| "acquires (Device_destroy cls dev) = []"

fun releases :: "call \<Rightarrow> resource list" where
  "releases (Cdev_del p) = [DispatchRegistration, CdevStruct]"
| "releases (Device_destroy cls dev) = [DeviceNode]"
| "releases (Class_unregister cls) = [DeviceClass]"
| "releases (Class_destroy cls) = [DeviceClass]"
| "releases (Unregister_chrdev_region dev c) = [DeviceIdentity]"
| "releases (Alloc_chrdev_region b c n ret dev) = []"
| "releases (Cdev_alloc p) = []"
| "releases (Cdev_init p fops) = []"
| "releases (Cdev_add p dev c ret) = []"
| "releases (Class_create n p) = []"
| "releases (Device_create cls dev n p) = []"

text \<open>The resources held after a list of calls, the latest acquired first.\<close>

definition step_held :: "resource list \<Rightarrow> call \<Rightarrow> resource list" where
  "step_held h c = acquires c @ filter (\<lambda>r. r \<notin> set (releases c)) h"

definition held :: "call list \<Rightarrow> resource list" where
  "held cs = foldl step_held [] cs"

text \<open>
  The resources in the order they were acquired, and in the order they were given back. A
  call gives back those of the resources it releases that are held when it is made.
\<close>

definition acquired :: "call list \<Rightarrow> resource list" where
  "acquired cs = concat (map acquires cs)"

fun released_from :: "resource list \<Rightarrow> call list \<Rightarrow> resource list" where
  "released_from h [] = []"
| "released_from h (c # cs) =
     filter (\<lambda>r. r \<in> set h) (releases c) @ released_from (step_held h c) cs"

definition released :: "call list \<Rightarrow> resource list" where
  "released cs = released_from [] cs"

text \<open>
  A call releases an absent resource when it names resources to release and none of them
  is held when it is made. \<open>absent_releases h cs\<close> lists the calls of \<open>cs\<close> that do so,
  starting with \<open>h\<close> held.
\<close>

definition releases_absent :: "resource list \<Rightarrow> call \<Rightarrow> bool" where
  "releases_absent h c = (releases c \<noteq> [] \<and> filter (\<lambda>r. r \<in> set h) (releases c) = [])"

fun absent_releases :: "resource list \<Rightarrow> call list \<Rightarrow> call list" where
  "absent_releases h [] = []"
| "absent_releases h (c # cs) =
     (if releases_absent h c then [c] else []) @ absent_releases (step_held h c) cs"



section \<open>Example runs\<close>

text \<open>
  A kernel that grants every request, one whose \<^verbatim>\<open>cdev_alloc\<close> has no memory left, a
  file with no state attached and a file with state attached.
\<close>

definition kernel_ok :: kernel where
  "kernel_ok =
     \<lparr>alloc_chrdev_region_ret = 0, alloc_chrdev_region_dev = MKDEV 240 0,
      cdev_alloc_ret = 4096, cdev_add_ret = 0, class_create_ret = 8192,
      device_create_ret = 12288\<rparr>"

definition kernel_no_cdev :: kernel where
  "kernel_no_cdev = kernel_ok\<lparr>cdev_alloc_ret := NULL\<rparr>"

definition mem_closed :: mem where
  "mem_closed =
     \<lparr>inode = \<lparr>i_rdev = MKDEV 240 0\<rparr>, filp = \<lparr>private_data = NULL\<rparr>,
      slab = [(7, \<lparr>tempPlaceholder = 5\<rparr>)], buf = ''abc'', ppos = 2\<rparr>"

definition mem_open :: mem where
  "mem_open =
     \<lparr>inode = \<lparr>i_rdev = MKDEV 240 0\<rparr>, filp = \<lparr>private_data = 8\<rparr>,
      slab = [(8, \<lparr>tempPlaceholder = 0\<rparr>), (7, \<lparr>tempPlaceholder = 5\<rparr>)],
      buf = ''abc'', ppos = 2\<rparr>"


section \<open>Facts about the allocator and the traces\<close>

lemmas service_defs =
  record_call_def alloc_chrdev_region_def cdev_alloc_def cdev_init_def cdev_add_def cdev_del_def
  unregister_chrdev_region_def class_create_def class_unregister_def class_destroy_def
  device_create_def device_destroy_def

lemmas name_defs = DEVICE_NAME_def CLASS_NAME_def firstOfMinorNum_def countOfMinorNum_def

lemma fold_max_ge: "(a::int) \<le> fold max xs a"
  by (induction xs arbitrary: a) (auto intro: order_trans [OF max.cobounded2])

lemma fold_max_mem: "x \<in> set xs \<Longrightarrow> (x::int) \<le> fold max xs a"
proof (induction xs arbitrary: a)
  case Nil
  then show ?case by simp
next
  case (Cons y ys)
  show ?case
  proof (cases "x = y")
    case True
    have "y \<le> max y a" by simp
    also have "\<dots> \<le> fold max ys (max y a)" by (rule fold_max_ge)
    finally show ?thesis using True by simp
  next
    case False
    with Cons.prems have "x \<in> set ys" by simp
    then show ?thesis using Cons.IH by simp
  qed
qed

lemma fresh_not_null: "fresh objs \<noteq> NULL"
  using fold_max_ge [of 0 "map fst objs"] by (simp add: fresh_def NULL_def)

lemma fresh_not_live: "fresh objs \<notin> fst ` set objs"
proof
  assume "fresh objs \<in> fst ` set objs"
  then have "fresh objs \<in> set (map fst objs)" by simp
  then have "fresh objs \<le> fold max (map fst objs) 0" by (rule fold_max_mem)
  then show False by (simp add: fresh_def)
qed

text \<open>Initialize returns 0 exactly when every one of its five tests passes.\<close>

lemma init_returns_0_iff:
  "fst (modbus_dev_init k m) = 0 \<longleftrightarrow>
     \<not> alloc_chrdev_region_ret k < 0 \<and> cdev_alloc_ret k \<noteq> NULL \<and> \<not> cdev_add_ret k < 0
     \<and> \<not> IS_ERR (class_create_ret k) \<and> \<not> IS_ERR (device_create_ret k)"
  by (auto simp add: modbus_dev_init_def service_defs Let_def IS_ERR_def PTR_ERR_def)

text \<open>The calls of Initialize, one branch for each place where it can stop.\<close>

lemma init_calls:
  "calls (snd (modbus_dev_init k m)) = calls m @
     (let d = alloc_chrdev_region_dev k; p = cdev_alloc_ret k; c = class_create_ret k;
          n = device_create_ret k in
      Alloc_chrdev_region 0 1 ''modbus_dev'' (alloc_chrdev_region_ret k) d #
      (if alloc_chrdev_region_ret k < 0 then []
       else Cdev_alloc p #
        (if p = NULL then []
         else Cdev_init p modbus_dev_fops # Cdev_add p d 1 (cdev_add_ret k) #
          (if cdev_add_ret k < 0 then [Cdev_del p, Unregister_chrdev_region d 1]
           else Class_create ''modbus_class'' c #
            (if IS_ERR c then [Cdev_del p, Unregister_chrdev_region d 1]
             else Device_create c d (''modbus_dev'' @ decimal (MINOR d)) n #
              (if IS_ERR n then [Class_destroy c, Cdev_del p, Unregister_chrdev_region d 1]
               else []))))))"
  by (simp add: modbus_dev_init_def service_defs name_defs Let_def)

lemma init_state:
  "fst (modbus_dev_init k m) = 0 \<Longrightarrow>
     my_dev (snd (modbus_dev_init k m)) = cdev_alloc_ret k
   \<and> firstAssignedDevNum (snd (modbus_dev_init k m)) = alloc_chrdev_region_dev k
   \<and> modbusClass (snd (modbus_dev_init k m)) = class_create_ret k
   \<and> modbusDevice (snd (modbus_dev_init k m)) = device_create_ret k"
  unfolding init_returns_0_iff by (simp add: modbus_dev_init_def service_defs Let_def)

lemma held_after_init:
  assumes "calls m = []" and "fst (modbus_dev_init k m) = 0"
  shows "held (calls (snd (modbus_dev_init k m)))
           = [DeviceNode, DeviceClass, DispatchRegistration, CdevStruct, DeviceIdentity]
       \<and> acquired (calls (snd (modbus_dev_init k m)))
           = [DeviceIdentity, CdevStruct, DispatchRegistration, DeviceClass, DeviceNode]"
  using assms(2) unfolding init_returns_0_iff init_calls assms(1)
  by (simp add: Let_def held_def step_held_def acquired_def)

lemma kernel_ok_init: "fst (modbus_dev_init kernel_ok module_unloaded) = 0"
  by (simp add: init_returns_0_iff kernel_ok_def NULL_def IS_ERR_def MAX_ERRNO_def)

lemma exit_calls_eq:
  "exit_calls m =
     (if my_dev m \<noteq> NULL then [Cdev_del (my_dev m)] else []) @
     [Device_destroy (modbusClass m) (firstAssignedDevNum m), Class_unregister (modbusClass m),
      Class_destroy (modbusClass m), Unregister_chrdev_region (firstAssignedDevNum m) 1]"
  by (simp add: exit_calls_def modbus_dev_exit_def service_defs name_defs Let_def)

lemma exit_calls_append: "calls (modbus_dev_exit m) = calls m @ exit_calls m"
  by (simp add: exit_calls_def modbus_dev_exit_def service_defs name_defs Let_def)

lemma exit_keeps_handles:
  "my_dev (modbus_dev_exit m) = my_dev m
   \<and> firstAssignedDevNum (modbus_dev_exit m) = firstAssignedDevNum m
   \<and> modbusClass (modbus_dev_exit m) = modbusClass m
   \<and> modbusDevice (modbus_dev_exit m) = modbusDevice m"
  by (simp add: modbus_dev_exit_def service_defs Let_def)



section \<open>Initialize: rollback and order of acquisition\<close>

text \<open>
  C1. When Initialize fails at a step, it should give back what the earlier steps acquired,
  in reverse order, so that nothing stays held; in particular a failed allocation of the
  cdev structure should give back the region of device numbers. The code does not do the
  latter: with the region granted and \<^verbatim>\<open>cdev_alloc\<close> returning the null pointer,
  \<open>modbus_dev_init\<close> returns \<open>-1\<close> after two calls, none of them a release, and the device
  identity stays held.
\<close>

theorem cdev_alloc_failure_leaks_region:
  "modbus_dev_init kernel_no_cdev module_unloaded =
     (- 1, module_unloaded\<lparr>firstAssignedDevNum := MKDEV 240 0,
             calls := [Alloc_chrdev_region 0 1 ''modbus_dev'' 0 (MKDEV 240 0), Cdev_alloc NULL]\<rparr>)
   \<and> held (calls (snd (modbus_dev_init kernel_no_cdev module_unloaded))) = [DeviceIdentity]
   \<and> released (calls (snd (modbus_dev_init kernel_no_cdev module_unloaded))) = []"
  by (simp add: modbus_dev_init_def service_defs name_defs Let_def kernel_no_cdev_def kernel_ok_def
      module_unloaded_def held_def step_held_def released_def)

text \<open>
  At every other step the rollback is complete: when Initialize fails and the failure is
  not that of \<^verbatim>\<open>cdev_alloc\<close>, nothing is held afterwards and the resources were given
  back in the reverse of the order they were acquired in.
\<close>

lemma init_rollback_other_steps:
  assumes "calls m = []" and "fst (modbus_dev_init k m) \<noteq> 0"
    and "alloc_chrdev_region_ret k < 0 \<or> cdev_alloc_ret k \<noteq> NULL"
  shows "held (calls (snd (modbus_dev_init k m))) = []
       \<and> released (calls (snd (modbus_dev_init k m)))
           = rev (acquired (calls (snd (modbus_dev_init k m))))"
  using assms(2,3) unfolding init_returns_0_iff init_calls assms(1)
  by (auto simp add: Let_def held_def step_held_def released_def acquired_def)

text \<open>
  C8. Initialize acquires its resources in one order: the device identity, a region of
  exactly one minor number starting at minor 0; the dispatch registration, the cdev
  initialised with the table of handlers and added for that device number and one minor;
  the device class; the device node, named by the device name followed by the minor number
  in decimal. A successful run makes exactly these calls, every run acquires an initial
  part of this order, and at every point of every run the node is held only while the
  dispatch registration is.
\<close>

theorem init_acquisition_order:
  assumes "calls m = []"
  shows "(fst (modbus_dev_init k m) = 0 \<longrightarrow>
            calls (snd (modbus_dev_init k m)) =
              [Alloc_chrdev_region 0 1 ''modbus_dev'' (alloc_chrdev_region_ret k)
                 (alloc_chrdev_region_dev k),
               Cdev_alloc (cdev_alloc_ret k),
               Cdev_init (cdev_alloc_ret k) modbus_dev_fops,
               Cdev_add (cdev_alloc_ret k) (alloc_chrdev_region_dev k) 1 (cdev_add_ret k),
               Class_create ''modbus_class'' (class_create_ret k),
               Device_create (class_create_ret k) (alloc_chrdev_region_dev k)
                 (''modbus_dev'' @ decimal (MINOR (alloc_chrdev_region_dev k)))
                 (device_create_ret k)]
          \<and> acquired (calls (snd (modbus_dev_init k m)))
              = [DeviceIdentity, CdevStruct, DispatchRegistration, DeviceClass, DeviceNode])
       \<and> (\<exists>j. acquired (calls (snd (modbus_dev_init k m)))
              = take j [DeviceIdentity, CdevStruct, DispatchRegistration, DeviceClass, DeviceNode])
       \<and> (\<forall>n. DeviceNode \<in> set (held (take n (calls (snd (modbus_dev_init k m)))))
              \<longrightarrow> DispatchRegistration \<in> set (held (take n (calls (snd (modbus_dev_init k m))))))"
proof (intro conjI impI)
  assume ok: "fst (modbus_dev_init k m) = 0"
  then show "calls (snd (modbus_dev_init k m)) =
              [Alloc_chrdev_region 0 1 ''modbus_dev'' (alloc_chrdev_region_ret k)
                 (alloc_chrdev_region_dev k),
               Cdev_alloc (cdev_alloc_ret k),
               Cdev_init (cdev_alloc_ret k) modbus_dev_fops,
               Cdev_add (cdev_alloc_ret k) (alloc_chrdev_region_dev k) 1 (cdev_add_ret k),
               Class_create ''modbus_class'' (class_create_ret k),
               Device_create (class_create_ret k) (alloc_chrdev_region_dev k)
                 (''modbus_dev'' @ decimal (MINOR (alloc_chrdev_region_dev k)))
                 (device_create_ret k)]"
    unfolding init_returns_0_iff init_calls assms by (simp add: Let_def)
  from ok show "acquired (calls (snd (modbus_dev_init k m)))
              = [DeviceIdentity, CdevStruct, DispatchRegistration, DeviceClass, DeviceNode]"
    using held_after_init [OF assms] by simp
next
  let ?order = "[DeviceIdentity, CdevStruct, DispatchRegistration, DeviceClass, DeviceNode]"
  have "acquired (calls (snd (modbus_dev_init k m))) \<in> {take 0 ?order, take 1 ?order,
          take 2 ?order, take 3 ?order, take 4 ?order, take 5 ?order}"
    unfolding init_calls assms by (simp add: Let_def acquired_def)
  then show "\<exists>j. acquired (calls (snd (modbus_dev_init k m))) = take j ?order"
    by blast
next
  show "\<forall>n. DeviceNode \<in> set (held (take n (calls (snd (modbus_dev_init k m)))))
              \<longrightarrow> DispatchRegistration \<in> set (held (take n (calls (snd (modbus_dev_init k m)))))"
    unfolding init_calls assms
    by (simp add: Let_def held_def step_held_def take_Cons split: nat.splits)
qed

text \<open>
  The run on the kernel that grants everything: the node is named \<^verbatim>\<open>modbus_dev0\<close>, and
  it is acquired by the sixth call, after the dispatch registration.
\<close>

theorem init_acquisition_order_witness:
  "calls module_unloaded = [] \<and> fst (modbus_dev_init kernel_ok module_unloaded) = 0
   \<and> calls (snd (modbus_dev_init kernel_ok module_unloaded)) =
       [Alloc_chrdev_region 0 1 ''modbus_dev'' 0 (MKDEV 240 0), Cdev_alloc 4096,
        Cdev_init 4096 modbus_dev_fops, Cdev_add 4096 (MKDEV 240 0) 1 0,
        Class_create ''modbus_class'' 8192,
        Device_create 8192 (MKDEV 240 0) ''modbus_dev0'' 12288]
   \<and> held (take 5 (calls (snd (modbus_dev_init kernel_ok module_unloaded))))
       = [DeviceClass, DispatchRegistration, CdevStruct, DeviceIdentity]
   \<and> held (take 6 (calls (snd (modbus_dev_init kernel_ok module_unloaded))))
       = [DeviceNode, DeviceClass, DispatchRegistration, CdevStruct, DeviceIdentity]"
proof -
  have a: "calls module_unloaded = []" by (simp add: module_unloaded_def)
  have b: "fst (modbus_dev_init kernel_ok module_unloaded) = 0" by (rule kernel_ok_init)
  have c: "decimal (MINOR (MKDEV 240 0)) = ''0''"
    by (simp add: decimal.simps digit_def MINOR_def MKDEV_def MINORBITS_def)
  show ?thesis using a b c init_acquisition_order [OF a, of kernel_ok]
    by (simp add: kernel_ok_def held_def step_held_def NULL_def IS_ERR_def MAX_ERRNO_def)
qed


section \<open>Shutdown\<close>

text \<open>
  C2. Shutdown after a successful Initialize should release in the exact reverse of the
  order of acquisition: the node first, then the class, then the dispatch registration,
  then the identity, as the rollback of Initialize itself does when \<^verbatim>\<open>device_create\<close>
  fails (\<^verbatim>\<open>class_destroy\<close>, \<^verbatim>\<open>cdev_del\<close>, \<^verbatim>\<open>unregister_chrdev_region\<close>). The code does
  not: after the load on the kernel that grants everything, the first call of
  \<open>modbus_dev_exit\<close> is \<^verbatim>\<open>cdev_del\<close> on the cdev of the load, and after that call the
  node and the class are still held while the dispatch registration is gone. The five
  calls of the unload are, with their arguments, those stated here, and the order of
  release is not the reverse of the order of acquisition.
\<close>

theorem exit_releases_dispatch_first:
  "fst (modbus_dev_init kernel_ok module_unloaded) = 0
   \<and> acquired (calls (snd (modbus_dev_init kernel_ok module_unloaded)))
       = [DeviceIdentity, CdevStruct, DispatchRegistration, DeviceClass, DeviceNode]
   \<and> exit_calls (snd (modbus_dev_init kernel_ok module_unloaded))
       = [Cdev_del 4096, Device_destroy 8192 (MKDEV 240 0), Class_unregister 8192,
          Class_destroy 8192, Unregister_chrdev_region (MKDEV 240 0) 1]
   \<and> held (calls (snd (modbus_dev_init kernel_ok module_unloaded))
            @ take 1 (exit_calls (snd (modbus_dev_init kernel_ok module_unloaded))))
       = [DeviceNode, DeviceClass, DeviceIdentity]
   \<and> released (calls (modbus_dev_exit (snd (modbus_dev_init kernel_ok module_unloaded))))
       = [DispatchRegistration, CdevStruct, DeviceNode, DeviceClass, DeviceIdentity]
   \<and> released (calls (modbus_dev_exit (snd (modbus_dev_init kernel_ok module_unloaded))))
       \<noteq> rev (acquired (calls (snd (modbus_dev_init kernel_ok module_unloaded))))"
  by (simp add: exit_calls_append exit_calls_eq init_calls init_state init_returns_0_iff
      kernel_ok_def module_unloaded_def NULL_def IS_ERR_def MAX_ERRNO_def Let_def
      released_def held_def step_held_def acquired_def)

text \<open>
  C3. Every release step of Shutdown should be guarded by its own handle, so that no
  release is made on a resource that is absent. The code guards \<^verbatim>\<open>cdev_del\<close> alone. On
  the unload that follows the load on the kernel that grants everything,
  \<open>modbus_dev_exit\<close> calls \<^verbatim>\<open>class_unregister\<close> and then \<^verbatim>\<open>class_destroy\<close> on the same
  class handle: after the first three calls only the device identity is held, and the
  fourth call releases the class once more. It is the one call of the unload that
  releases an absent resource.
\<close>

theorem exit_releases_class_twice:
  "exit_calls (snd (modbus_dev_init kernel_ok module_unloaded))
       = [Cdev_del 4096, Device_destroy 8192 (MKDEV 240 0), Class_unregister 8192,
          Class_destroy 8192, Unregister_chrdev_region (MKDEV 240 0) 1]
   \<and> held (calls (snd (modbus_dev_init kernel_ok module_unloaded)))
       = [DeviceNode, DeviceClass, DispatchRegistration, CdevStruct, DeviceIdentity]
   \<and> held (calls (snd (modbus_dev_init kernel_ok module_unloaded))
            @ take 3 (exit_calls (snd (modbus_dev_init kernel_ok module_unloaded))))
       = [DeviceIdentity]
   \<and> releases (Class_destroy 8192) = [DeviceClass]
   \<and> absent_releases (held (calls (snd (modbus_dev_init kernel_ok module_unloaded))))
        (exit_calls (snd (modbus_dev_init kernel_ok module_unloaded)))
       = [Class_destroy 8192]"
  by (simp add: exit_calls_eq init_calls init_state init_returns_0_iff
      kernel_ok_def module_unloaded_def NULL_def IS_ERR_def MAX_ERRNO_def Let_def
      held_def step_held_def releases_absent_def)

text \<open>
  The rollback of Initialize makes no such call: whatever the kernel answers, no call of
  a module load releases an absent resource.
\<close>

lemma init_no_absent_release:
  assumes "calls m = []"
  shows "absent_releases [] (calls (snd (modbus_dev_init k m))) = []"
  unfolding init_calls assms
  by (simp add: Let_def step_held_def releases_absent_def)


section \<open>Open and Close\<close>

text \<open>
  C6. Open asks the allocator for a structure filled with zeros. When the allocation
  fails, Open returns \<open>-ENOMEM\<close> and the inode, the file and the rest of memory are as
  before. When it succeeds, Open returns 0, the \<^verbatim>\<open>private_data\<close> field of the file holds
  the address of the new structure, which is not null and was not live before, the new
  structure holds zero, and the inode, the user buffer and the position are as before.
\<close>

theorem open_contract:
  "modbus_dev_open False s = (- ENOMEM, s)
   \<and> fst (modbus_dev_open True s) = 0
   \<and> private_data (filp (snd (modbus_dev_open True s))) = fresh (slab s)
   \<and> fresh (slab s) \<noteq> NULL
   \<and> fresh (slab s) \<notin> fst ` set (slab s)
   \<and> slab (snd (modbus_dev_open True s)) = (fresh (slab s), \<lparr>tempPlaceholder = 0\<rparr>) # slab s
   \<and> inode (snd (modbus_dev_open True s)) = inode s
   \<and> buf (snd (modbus_dev_open True s)) = buf s
   \<and> ppos (snd (modbus_dev_open True s)) = ppos s"
  using fresh_not_null [of "slab s"] fresh_not_live [of "slab s"]
  by (simp add: modbus_dev_open_def kzalloc_def)

theorem open_contract_witness:
  "modbus_dev_open False mem_closed = (- 12, mem_closed)
   \<and> modbus_dev_open True mem_closed
       = (0, mem_closed\<lparr>filp := \<lparr>private_data = 8\<rparr>,
                         slab := [(8, \<lparr>tempPlaceholder = 0\<rparr>), (7, \<lparr>tempPlaceholder = 5\<rparr>)]\<rparr>)"
  using open_contract [of mem_closed]
  by (simp add: mem_closed_def fresh_def ENOMEM_def prod_eq_iff)

text \<open>
  C4, as the specification words it, has Close detach the state, so that the
  \<^verbatim>\<open>private_data\<close> field no longer refers to the released structure. On a file whose
  field holds address 8, Close returns 0 and releases the structure at 8, and the field
  still holds 8.
\<close>

theorem close_dangling_counterexample:
  "private_data (filp mem_open) = 8
   \<and> fst (modbus_dev_close mem_open) = 0
   \<and> private_data (filp (snd (modbus_dev_close mem_open))) = 8
   \<and> map_of (slab (snd (modbus_dev_close mem_open))) 8 = None"
  by (simp add: mem_open_def modbus_dev_close_def kfree_def NULL_def)

text \<open>
  C4, amended. On a file with state attached, Close releases that structure and no
  other, returns 0, and leaves the file, with its \<^verbatim>\<open>private_data\<close> field, as it was. On
  a file with no state attached it returns \<open>-ENOMEM\<close> and releases nothing.
\<close>

theorem close_contract:
  "(private_data (filp s) = NULL \<longrightarrow> modbus_dev_close s = (- ENOMEM, s))
   \<and> (private_data (filp s) \<noteq> NULL \<longrightarrow>
        fst (modbus_dev_close s) = 0
      \<and> filp (snd (modbus_dev_close s)) = filp s
      \<and> slab (snd (modbus_dev_close s))
          = filter (\<lambda>obj. fst obj \<noteq> private_data (filp s)) (slab s)
      \<and> private_data (filp s) \<notin> fst ` set (slab (snd (modbus_dev_close s)))
      \<and> inode (snd (modbus_dev_close s)) = inode s
      \<and> buf (snd (modbus_dev_close s)) = buf s
      \<and> ppos (snd (modbus_dev_close s)) = ppos s)"
  by (auto simp add: modbus_dev_close_def kfree_def)

theorem close_contract_witness:
  "modbus_dev_close mem_closed = (- 12, mem_closed)
   \<and> modbus_dev_close mem_open
       = (0, mem_open\<lparr>slab := [(7, \<lparr>tempPlaceholder = 5\<rparr>)]\<rparr>)"
  using close_contract [of mem_closed] close_contract [of mem_open]
  by (simp add: mem_closed_def mem_open_def ENOMEM_def NULL_def prod_eq_iff)


section \<open>The handlers on a file without state, and on a file with state\<close>

text \<open>
  C5. On a file with no state attached, each of Close, Ioctl, Read and Write returns
  \<open>-ENOMEM\<close> and leaves all of memory as it was: nothing is released, nothing is
  transferred, no field changes.
\<close>

theorem missing_state_aborts:
  assumes "private_data (filp s) = NULL"
  shows "modbus_dev_close s = (- ENOMEM, s)
       \<and> modbus_dev_ioctl cmd arg s = (- ENOMEM, s)
       \<and> modbus_dev_read lbuf s = (- ENOMEM, s)
       \<and> modbus_dev_write lbuf s = (- ENOMEM, s)"
  using assms
  by (simp add: modbus_dev_close_def modbus_dev_ioctl_def modbus_dev_read_def modbus_dev_write_def)

theorem missing_state_aborts_witness:
  "private_data (filp mem_closed) = NULL
   \<and> modbus_dev_close mem_closed = (- 12, mem_closed)
   \<and> modbus_dev_ioctl 3 4 mem_closed = (- 12, mem_closed)
   \<and> modbus_dev_read 3 mem_closed = (- 12, mem_closed)
   \<and> modbus_dev_write 3 mem_closed = (- 12, mem_closed)"
proof -
  have h: "private_data (filp mem_closed) = NULL" by (simp add: mem_closed_def)
  show ?thesis using h missing_state_aborts [OF h, of 3 4 3] by (simp add: ENOMEM_def)
qed

text \<open>
  C7. On a file with state attached, Ioctl returns 0 for every command and argument and
  changes nothing, and Read and Write return 0, the count of bytes transferred, for every
  buffer, length and position, and change nothing.
\<close>

theorem stubs_succeed:
  assumes "private_data (filp s) \<noteq> NULL"
  shows "modbus_dev_ioctl cmd arg s = (0, s)
       \<and> modbus_dev_read lbuf s = (0, s)
       \<and> modbus_dev_write lbuf s = (0, s)"
  using assms
  by (simp add: modbus_dev_ioctl_def modbus_dev_read_def modbus_dev_write_def)

theorem stubs_succeed_witness:
  "private_data (filp mem_open) \<noteq> NULL
   \<and> modbus_dev_ioctl 3 4 mem_open = (0, mem_open)
   \<and> modbus_dev_read 3 mem_open = (0, mem_open)
   \<and> modbus_dev_write 3 mem_open = (0, mem_open)"
proof -
  have h: "private_data (filp mem_open) \<noteq> NULL" by (simp add: mem_open_def NULL_def)
  show ?thesis using h stubs_succeed [OF h, of 3 4 3] by simp
qed

text \<open>
  C9. The value Open returns when the allocation fails and the value Close, Ioctl, Read
  and Write return when no state is attached are one and the same, \<open>-ENOMEM\<close>, that is
  \<open>-12\<close>.
\<close>

theorem same_error_code:
  "fst (modbus_dev_open False s) = - ENOMEM
   \<and> fst (modbus_dev_close (s\<lparr>filp := (filp s)\<lparr>private_data := NULL\<rparr>\<rparr>)) = - ENOMEM
   \<and> fst (modbus_dev_ioctl cmd arg (s\<lparr>filp := (filp s)\<lparr>private_data := NULL\<rparr>\<rparr>)) = - ENOMEM
   \<and> fst (modbus_dev_read lbuf (s\<lparr>filp := (filp s)\<lparr>private_data := NULL\<rparr>\<rparr>)) = - ENOMEM
   \<and> fst (modbus_dev_write lbuf (s\<lparr>filp := (filp s)\<lparr>private_data := NULL\<rparr>\<rparr>)) = - ENOMEM
   \<and> - ENOMEM = - 12"
  by (simp add: modbus_dev_open_def kzalloc_def modbus_dev_close_def modbus_dev_ioctl_def
      modbus_dev_read_def modbus_dev_write_def ENOMEM_def)

text \<open>
  C10. On a file with state attached, Read and Write leave the position \<^verbatim>\<open>*ppos\<close>, the
  bytes of the user buffer, the file and every live structure of the allocator, the
  attached one among them, as they were.
\<close>

theorem read_write_frame:
  assumes "private_data (filp s) \<noteq> NULL"
  shows "ppos (snd (modbus_dev_read lbuf s)) = ppos s
       \<and> buf (snd (modbus_dev_read lbuf s)) = buf s
       \<and> filp (snd (modbus_dev_read lbuf s)) = filp s
       \<and> slab (snd (modbus_dev_read lbuf s)) = slab s
       \<and> ppos (snd (modbus_dev_write lbuf s)) = ppos s
       \<and> buf (snd (modbus_dev_write lbuf s)) = buf s
       \<and> filp (snd (modbus_dev_write lbuf s)) = filp s
       \<and> slab (snd (modbus_dev_write lbuf s)) = slab s"
  using assms by (simp add: modbus_dev_read_def modbus_dev_write_def)

theorem read_write_frame_witness:
  "private_data (filp mem_open) \<noteq> NULL
   \<and> ppos (snd (modbus_dev_read 3 mem_open)) = 2
   \<and> buf (snd (modbus_dev_read 3 mem_open)) = ''abc''
   \<and> map_of (slab (snd (modbus_dev_read 3 mem_open))) 8 = Some \<lparr>tempPlaceholder = 0\<rparr>
   \<and> ppos (snd (modbus_dev_write 3 mem_open)) = 2
   \<and> buf (snd (modbus_dev_write 3 mem_open)) = ''abc''
   \<and> map_of (slab (snd (modbus_dev_write 3 mem_open))) 8 = Some \<lparr>tempPlaceholder = 0\<rparr>"
proof -
  have h: "private_data (filp mem_open) \<noteq> NULL" by (simp add: mem_open_def NULL_def)
  show ?thesis using h read_write_frame [OF h, of 3] by (simp add: mem_open_def)
qed

end
